theory Spec2Isabelle
  imports Main
begin

section \<open>The declared contract surface\<close>

text \<open>
  The sources are TypeScript interface declarations: every member is a method signature
  with a documentation comment, and no member has a body. An interface is embedded as the
  list of its members in source order. A member records its name, whether it is declared
  optional (the \<open>?\<close> after the name), its parameters (name, optional marker, type), its
  declared return type, and the descriptive text of its documentation comment (the lines
  before the first \<open>@param\<close>, joined by single spaces; empty when the member has no
  comment).
\<close>

datatype ts_type =
    TString
  | TNumber
  | TBoolean
  | TUndefined
  | TRef string
  | TArray ts_type
  | TUnion ts_type ts_type
  | TPromise ts_type

datatype param = Param (pname: string) (poptional: bool) (ptype: ts_type)

datatype method_sig =
  Method (mname: string) (moptional: bool) (mparams: "param list") (mreturns: ts_type)
    (mdoc: string)

subsection \<open>src/accessors/IMessageRead.ts\<close>

definition IMessageRead :: "method_sig list" where
  "IMessageRead =
    [Method ''getById'' False [Param ''id'' False TString]
       (TPromise (TUnion (TRef ''IMessage'') TUndefined)) '''',
     Method ''getSenderUser'' False [Param ''messageId'' False TString]
       (TPromise (TUnion (TRef ''IUser'') TUndefined)) '''',
     Method ''getRoom'' False [Param ''messageId'' False TString]
       (TPromise (TUnion (TRef ''IRoom'') TUndefined)) '''']"

subsection \<open>The builder accessors: IBuilder, INewBuilder, IModifyBuilder\<close>

definition IBuilder :: "method_sig list" where
  "IBuilder =
    [Method ''buildMessage'' False [Param ''msg'' True (TRef ''IMessage'')]
       (TRef ''IMessageBuilder'')
       ''Builds a new message with the ability to pass in a message object to continue building on.'',
     Method ''buildRoom'' False [Param ''room'' True (TRef ''IRoom'')]
       (TRef ''IRoomBuilder'')
       ''Builds a new room with the ability to pass in a room object to continue building on.'',
     Method ''modifyMessage'' False
       [Param ''msgId'' False TString, Param ''updater'' False (TRef ''IUser'')]
       (TRef ''IMessageBuilder'')
       ''Modifies an existing message.'',
     Method ''modifyRoom'' False
       [Param ''roomId'' False TString, Param ''updater'' False (TRef ''IUser'')]
       (TRef ''IRoomBuilder'')
       ''Modifies an existing room.'',
     Method ''finishMessage'' False [Param ''builder'' False (TRef ''IMessageBuilder'')]
       (TRef ''IMessage'')
       ''Finishes and sends the message, the builder instance will no longer be valid and to build a new message you will have to get a new message builder instance.'',
     Method ''finishRoom'' False [Param ''builder'' False (TRef ''IRoomBuilder'')]
       (TRef ''IRoom'')
       ''Finishes and creates the room, the builder instance will no longer be valid and to build a new room you will have to get a new room builder instance.'']"

definition INewBuilder :: "method_sig list" where
  "INewBuilder =
    [Method ''buildMessage'' False [Param ''msg'' True (TRef ''IMessage'')]
       (TRef ''IMessageBuilder'')
       ''Builds a new message with the ability to pass in a message object to continue building on.'',
     Method ''sendMessage'' False [Param ''builder'' False (TRef ''IMessageBuilder'')]
       (TRef ''IMessage'')
       ''Finishes and sends the message, the builder instance will no longer be valid and to build a new message you will have to get a new message builder instance.'',
     Method ''buildRoom'' False [Param ''room'' True (TRef ''IRoom'')]
       (TRef ''IRoomBuilder'')
       ''Builds a new room with the ability to pass in a room object to continue building on.'',
     Method ''createRoom'' False [Param ''builder'' False (TRef ''IRoomBuilder'')]
       (TRef ''IRoom'')
       ''Finishes and creates the room, the builder instance will no longer be valid and to build a new room you will have to get a new room builder instance.'']"

definition IModifyBuilder :: "method_sig list" where
  "IModifyBuilder =
    [Method ''modifyMessage'' False
       [Param ''msgId'' False TString, Param ''updater'' False (TRef ''IUser'')]
       (TRef ''IMessageBuilder'')
       ''Modifies an existing message.'',
     Method ''modifyRoom'' False
       [Param ''roomId'' False TString, Param ''updater'' False (TRef ''IUser'')]
       (TRef ''IRoomBuilder'')
       ''Modifies an existing room.'']"

subsection \<open>IMessageBuilder\<close>

definition IMessageBuilder :: "method_sig list" where
  "IMessageBuilder =
    [Method ''setRoom'' False [Param ''room'' False (TRef ''IRoom'')]
       (TRef ''IMessageBuilder'')
       ''Sets the room where this message should be sent to.'',
     Method ''setSender'' False [Param ''sender'' False (TRef ''IUser'')]
       (TRef ''IMessageBuilder'')
       ''Sets the sender of this message.'',
     Method ''setText'' False [Param ''text'' False TString]
       (TRef ''IMessageBuilder'')
       ''Sets the text of the message.'',
     Method ''setEmojiAvatar'' False [Param ''emoji'' False TString]
       (TRef ''IMessageBuilder'')
       ''Sets the emoji to use for the avatar, this overwrites the current avatar whether it be the user's or the avatar url provided.'',
     Method ''setAvatarUrl'' False [Param ''avatarUrl'' False TString]
       (TRef ''IMessageBuilder'')
       ''Sets the url which to display for the avatar, this overwrites the current avatar whether it be the user's or an emoji one.'',
     Method ''setUsernameAlias'' False [Param ''alias'' False TString]
       (TRef ''IMessageBuilder'')
       ''Sets the display text of the sender's username that is visible.'',
     Method ''addAttachment'' False [Param ''attachment'' False (TRef ''IMessageAttachment'')]
       (TRef ''IMessageBuilder'')
       ''Adds one attachment to the message's list of attachments, this will not overwrite any existing ones but just adds.'',
     Method ''setAttachments'' False
       [Param ''attachments'' False (TArray (TRef ''IMessageAttachment''))]
       (TRef ''IMessageBuilder'')
       ''Sets the attachments for the message, replacing and destroying all of the current attachments.'',
     Method ''replaceAttachment'' False
       [Param ''position'' False TNumber,
        Param ''attachment'' False (TRef ''IMessageAttachment'')]
       (TRef ''IMessageBuilder'')
       ''Replaces an attachment at the given position (index). If there is no attachment at that position, there will be an error thrown.'',
     Method ''removeAttachment'' False [Param ''position'' False TNumber]
       (TRef ''IMessageBuilder'')
       ''Removes an attachment at the given position (index). If there is no attachment at that position, there will be an error thrown.'',
     Method ''setUpdater'' False [Param ''user'' False (TRef ''IUser'')]
       (TRef ''IMessageBuilder'')
       ''Sets the user who is updating this message. This is required if you are modifying an existing message.'',
     Method ''getMessage'' False []
       (TRef ''IMessage'')
       ''Gets the resulting message that has been built up to the point of calling it. Note: modifying the returned value will have no effect.'']"

subsection \<open>IRoomBuilder\<close>

definition IRoomBuilder :: "method_sig list" where
  "IRoomBuilder =
    [Method ''setCreator'' False [Param ''creator'' False (TRef ''IUser'')]
       (TRef ''IRoomBuilder'')
       ''Sets the creator of the room.'',
     Method ''setName'' False [Param ''name'' False TString]
       (TRef ''IRoomBuilder'')
       ''Sets the name of this room, it must align to the rules of Rocket.Chat room names otherwise there will be an error thrown.'',
     Method ''setType'' False [Param ''type'' False (TRef ''RoomType'')]
       (TRef ''IRoomBuilder'')
       ''Sets the room's type.'',
     Method ''setDefault'' False [Param ''isDefault'' False TBoolean]
       (TRef ''IRoomBuilder'')
       ''Sets whether this room should be a default room or not. This means that new users will automatically join this room when they join the server.'',
     Method ''addUsername'' False [Param ''username'' False TString]
       (TRef ''IRoomBuilder'')
       ''Adds a user to the room, these are by username until further notice.'',
     Method ''setUsers'' False [Param ''users'' False (TArray TString)]
       (TRef ''IRoomBuilder'')
       ''Sets the usernames of who are joined to the room.'',
     Method ''getRoom'' False []
       (TRef ''IRoom'')
       ''Gets the resulting room that has been built up to the point of calling this method. Note: modifying the returned value will have no effect.'']"

subsection \<open>IPreMessageSentEnrich\<close>

definition IPreMessageSentEnrich :: "method_sig list" where
  "IPreMessageSentEnrich =
    [Method ''checkPreMessageSentEnrich'' True
       [Param ''message'' False (TRef ''IMessage''),
        Param ''read'' False (TRef ''IRead''),
        Param ''http'' False (TRef ''IHttp'')]
       TBoolean
       ''Enables the handler to signal to the Rocketlets framework whether this handler should actually be executed for the message about to be sent.'',
     Method ''executePreMessageSentEnrich'' False
       [Param ''message'' False (TRef ''IMessage''),
        Param ''read'' False (TRef ''IRead''),
        Param ''extend'' False (TRef ''IMessageExtend''),
        Param ''http'' False (TRef ''IHttp'')]
       (TRef ''IMessage'')
       ''Method which is to be used to non-destructively enrich the message.'']"

section \<open>Queries on a declared interface\<close>

definition method_names :: "method_sig list \<Rightarrow> string list" where
  "method_names I = map mname I"

definition lookup_method :: "string \<Rightarrow> method_sig list \<Rightarrow> method_sig option" where
  "lookup_method n I = find (\<lambda>m. mname m = n) I"

text \<open>
  A fluent setter of the interface named \<open>self\<close> is a member whose declared return type
  is \<open>self\<close> again.
\<close>

definition fluent_setters :: "string \<Rightarrow> method_sig list \<Rightarrow> string list" where
  "fluent_setters self I = map mname (filter (\<lambda>m. mreturns m = TRef self) I)"

text \<open>
  A terminal commit member consumes a builder and hands back the finished entity: it has a
  parameter of a builder type and returns \<open>IMessage\<close> or \<open>IRoom\<close>.
\<close>

definition takes_builder :: "method_sig \<Rightarrow> bool" where
  "takes_builder m =
     list_ex (\<lambda>p. ptype p = TRef ''IMessageBuilder'' \<or> ptype p = TRef ''IRoomBuilder'')
       (mparams m)"

definition returns_entity :: "method_sig \<Rightarrow> bool" where
  "returns_entity m = (mreturns m = TRef ''IMessage'' \<or> mreturns m = TRef ''IRoom'')"

definition commit_methods :: "method_sig list \<Rightarrow> string list" where
  "commit_methods I = map mname (filter (\<lambda>m. takes_builder m \<and> returns_entity m) I)"

section \<open>Facts about the declared surface\<close>

text \<open>
  The members of each builder whose declared return type is the builder interface itself,
  and the declared result types of the read accessor. All three read operations are
  declared to deliver a promise of an entity or \<open>undefined\<close>.
\<close>

lemma message_builder_fluent_setters:
  "fluent_setters ''IMessageBuilder'' IMessageBuilder =
     [''setRoom'', ''setSender'', ''setText'', ''setEmojiAvatar'', ''setAvatarUrl'',
      ''setUsernameAlias'', ''addAttachment'', ''setAttachments'', ''replaceAttachment'',
      ''removeAttachment'', ''setUpdater'']"
  by (simp add: fluent_setters_def IMessageBuilder_def)

lemma message_read_result_types:
  "map mreturns IMessageRead =
     [TPromise (TUnion (TRef ''IMessage'') TUndefined),
      TPromise (TUnion (TRef ''IUser'') TUndefined),
      TPromise (TUnion (TRef ''IRoom'') TUndefined)]"
  by (simp add: IMessageRead_def)

text \<open>
  The declared shape of the enrichment hook: the first member is optional and returns a
  boolean, the second is required and returns a message.
\<close>

lemma pre_message_sent_enrich_signatures:
  "method_names IPreMessageSentEnrich =
     [''checkPreMessageSentEnrich'', ''executePreMessageSentEnrich'']
   \<and> map moptional IPreMessageSentEnrich = [True, False]
   \<and> map (map ptype \<circ> mparams) IPreMessageSentEnrich =
       [[TRef ''IMessage'', TRef ''IRead'', TRef ''IHttp''],
        [TRef ''IMessage'', TRef ''IRead'', TRef ''IMessageExtend'', TRef ''IHttp'']]
   \<and> map mreturns IPreMessageSentEnrich = [TBoolean, TRef ''IMessage'']"
  by (simp add: method_names_def IPreMessageSentEnrich_def)

section \<open>The room builder has no updater setter\<close>

text \<open>
  Claim C8, as stated: the room builder contract includes a fluent setter
  \<open>setUpdater\<close> among its operations, next to \<open>setCreator\<close>, \<open>setName\<close>,
  \<open>setType\<close> and \<open>setDefault\<close>. The declaration of \<open>IRoomBuilder\<close> has no
  member of that name, so the claim as stated fails on the declared interface.
\<close>

theorem room_builder_setUpdater_counterexample:
  "''setUpdater'' \<notin> set (method_names IRoomBuilder)"
  by (simp add: method_names_def IRoomBuilder_def)

text \<open>
  Claim C8, amended: the members of the room builder are exactly \<open>setCreator\<close>,
  \<open>setName\<close>, \<open>setType\<close>, \<open>setDefault\<close>, \<open>addUsername\<close>, \<open>setUsers\<close>
  and \<open>getRoom\<close>, of which all but \<open>getRoom\<close> are fluent setters; a setter
  \<open>setUpdater\<close> is declared on the message builder only. For a room the updater enters
  through the second parameter of \<open>modifyRoom(roomId, updater)\<close>, on both accessors that
  declare it.
\<close>

theorem room_builder_members:
  "method_names IRoomBuilder =
     [''setCreator'', ''setName'', ''setType'', ''setDefault'', ''addUsername'', ''setUsers'',
      ''getRoom'']
   \<and> fluent_setters ''IRoomBuilder'' IRoomBuilder =
     [''setCreator'', ''setName'', ''setType'', ''setDefault'', ''addUsername'', ''setUsers'']
   \<and> ''setUpdater'' \<in> set (fluent_setters ''IMessageBuilder'' IMessageBuilder)
   \<and> map_option mparams (lookup_method ''modifyRoom'' IModifyBuilder) =
       Some [Param ''roomId'' False TString, Param ''updater'' False (TRef ''IUser'')]
   \<and> map_option mparams (lookup_method ''modifyRoom'' IBuilder) =
       Some [Param ''roomId'' False TString, Param ''updater'' False (TRef ''IUser'')]"
  by (simp add: method_names_def fluent_setters_def lookup_method_def
      IRoomBuilder_def IMessageBuilder_def IModifyBuilder_def IBuilder_def)

section \<open>The modification-only accessor cannot commit\<close>

text \<open>
  Claim C10: \<open>IModifyBuilder\<close> declares exactly \<open>modifyMessage\<close> and
  \<open>modifyRoom\<close>, which return a message builder and a room builder. Neither it nor the
  two builder interfaces declare a terminal commit member, and every member of the three
  returns a builder or an entity, so nothing reachable from the accessor commits. The
  commit members are \<open>finishMessage\<close> and \<open>finishRoom\<close> of \<open>IBuilder\<close> and
  \<open>sendMessage\<close> and \<open>createRoom\<close> of \<open>INewBuilder\<close>; no other declared
  interface has one.
\<close>

theorem modify_builder_has_no_commit:
  "method_names IModifyBuilder = [''modifyMessage'', ''modifyRoom'']
   \<and> map mreturns IModifyBuilder = [TRef ''IMessageBuilder'', TRef ''IRoomBuilder'']
   \<and> commit_methods IModifyBuilder = []
   \<and> commit_methods IMessageBuilder = []
   \<and> commit_methods IRoomBuilder = []
   \<and> remdups (map mreturns (IModifyBuilder @ IMessageBuilder @ IRoomBuilder)) =
       [TRef ''IMessageBuilder'', TRef ''IMessage'', TRef ''IRoomBuilder'', TRef ''IRoom'']
   \<and> commit_methods IBuilder = [''finishMessage'', ''finishRoom'']
   \<and> commit_methods INewBuilder = [''sendMessage'', ''createRoom'']
   \<and> commit_methods IMessageRead = []
   \<and> commit_methods IPreMessageSentEnrich = []"
  by (simp add: method_names_def commit_methods_def takes_builder_def returns_entity_def
      IRoomBuilder_def IMessageBuilder_def IModifyBuilder_def IBuilder_def INewBuilder_def
      IMessageRead_def IPreMessageSentEnrich_def)

end
